theory Spec2Isabelle
  imports Main "HOL-Library.Multiset"
begin

section \<open>The SPP-to-TCP bridge of blueserver.py\<close>

text \<open>
  The source is Python 2 (print statements, \<open>socket.error\<close> a subclass of \<open>IOError\<close>).
  Every call into the socket layer, the D-Bus proxy and the process library is modelled
  as a step on an explicit world: the step either returns, raises one of the exceptions
  below, or never returns (a blocking call that is never served). What the outside does
  (replies of the control plane, failures of the socket layer, the TCP client's data, what
  the Bluetooth-side socket transmits) is read from an environment record; what the program
  does is appended to a trace of events, and the ports and descriptors it holds are part of
  the world.
\<close>

subsection \<open>Exceptions\<close>

datatype exn =
    DBusException string
  | BluezUtilError string
  | SocketError
  | OverflowError
  | TCPConnectionError string
  | TCPServerError string
  | AttributeError

text \<open>\<open>except dbus.exceptions.DBusException\<close>\<close>

fun is_DBusException :: "exn \<Rightarrow> bool" where
  "is_DBusException (DBusException m) = True"
| "is_DBusException e = False"

text \<open>\<open>except IOError\<close>: \<open>socket.error\<close> is a subclass of \<open>IOError\<close>.\<close>

fun is_IOError :: "exn \<Rightarrow> bool" where
  "is_IOError SocketError = True"
| "is_IOError e = False"

text \<open>\<open>except TCPConnectionError\<close>\<close>

fun is_TCPConnectionError :: "exn \<Rightarrow> bool" where
  "is_TCPConnectionError (TCPConnectionError m) = True"
| "is_TCPConnectionError e = False"

text \<open>\<open>except TCPServerError\<close>\<close>

fun is_TCPServerError :: "exn \<Rightarrow> bool" where
  "is_TCPServerError (TCPServerError m) = True"
| "is_TCPServerError e = False"

text \<open>What \<open>print error\<close> writes for an exception.\<close>

fun message :: "exn \<Rightarrow> string" where
  "message (DBusException m) = m"
| "message (BluezUtilError m) = m"
| "message SocketError = ''socket.error''"
| "message OverflowError = ''OverflowError''"
| "message (TCPConnectionError m) = m"
| "message (TCPServerError m) = m"
| "message AttributeError = ''AttributeError''"

subsection \<open>Events, environment and world\<close>

text \<open>
  \<open>Print s\<close> is a print statement whose items are evaluated already: it writes the line
  \<open>s\<close>. The statement of line 128 calls \<open>accept_connection\<close> between its two items, so
  it is three events: \<open>PrintItem\<close> for the first item, written before the call,
  \<open>PrintItem\<close> for the second and \<open>PrintNewline\<close>. \<open>BtSend s\<close> is a call of \<open>send\<close> on
  the Bluetooth-side socket that transmitted the bytes \<open>s\<close>; \<open>BtSendFailed d\<close> is a call
  with the chunk \<open>d\<close> that raised.
\<close>

datatype event =
    Print string
  | PrintItem string
  | PrintNewline
  | RegisterProfile string string nat
  | UnregisterProfile string
  | ProcessStart
  | MainloopQuit
  | ProcessTerminate
  | ProcessJoin
  | TakeFd
  | BtSend string
  | BtSendFailed string
  | BtClose
  | ClientClose
  | ListenerClose
  | Disconnect string

datatype dbus_reply = Reply | ErrorReply string

datatype accept_result = Accepted string | AcceptError | AcceptBlocks

datatype recv_result = RecvData string | RecvError | RecvBlocks

text \<open>\<open>Sent n\<close>: the call of \<open>send\<close> transmits the first \<open>n\<close> bytes of its chunk.\<close>

datatype send_result = Sent nat | SendError

text \<open>The calls of \<open>TCPServer.initialize\<close> that can raise \<open>socket.error\<close>.\<close>

datatype stage = AtSocket | AtSetsockopt | AtResolve | AtBind | AtListen

text \<open>
  \<open>socket_error env s\<close> is the text of the \<open>socket.error\<close> that the socket layer raises at
  stage \<open>s\<close> of \<open>initialize\<close> for a reason other than a held port, if it raises one.
  \<open>recv_script env i\<close> is what the call number \<open>i\<close> of \<open>recv\<close> on the accepted client
  socket does, and \<open>send_script env k\<close> what the call number \<open>k\<close> of \<open>send\<close> on the
  Bluetooth-side socket does. \<open>bluetooth_init env\<close> is the exception that the constructor
  \<open>Bluetooth()\<close> raises, if it raises one.
\<close>

record env =
  register_reply :: dbus_reply
  unregister_reply :: dbus_reply
  socket_error :: "stage \<Rightarrow> string option"
  accept_result :: accept_result
  fromfd_ok :: bool
  recv_script :: "nat \<Rightarrow> recv_result"
  send_script :: "nat \<Rightarrow> send_result"
  bluetooth_init :: "exn option"
  disconnect_result :: bool

text \<open>
  The descriptors the program owns: the one of the listening socket, the one of the
  accepted client socket, the one taken from the transport handle by \<open>fd.take()\<close>, and
  the duplicate of it that \<open>socket.fromfd\<close> makes for the Bluetooth-side socket object.
\<close>

datatype descriptor = ListenerFd | ClientFd | TransportFd | BtSockFd

text \<open>
  \<open>bound w\<close> holds the loopback ports on which \<open>bind\<close> fails with address already in use:
  those of the listening sockets, of this process or of another one. \<open>open_fds w\<close> holds
  the descriptors that the program has opened or taken and not closed; a socket is closed
  by a call of \<open>close()\<close> only, what the runtime does to an object that is dropped without
  one is not modelled. \<open>reads w\<close> and \<open>sends w\<close> count the \<open>recv\<close> and \<open>send\<close> calls made.
\<close>

record world =
  bound :: "int set"
  open_fds :: "descriptor multiset"
  reads :: nat
  sends :: nat
  trace :: "event list"

definition log :: "event \<Rightarrow> world \<Rightarrow> world" where
  "log e w = w\<lparr>trace := trace w @ [e]\<rparr>"

definition fd_open :: "descriptor \<Rightarrow> world \<Rightarrow> world" where
  "fd_open d w = w\<lparr>open_fds := add_mset d (open_fds w)\<rparr>"

definition fd_close :: "descriptor \<Rightarrow> world \<Rightarrow> world" where
  "fd_close d w = w\<lparr>open_fds := open_fds w - {#d#}\<rparr>"

subsection \<open>Address derivation\<close>

text \<open>
  Python's \<open>s[i:j]\<close>: a negative bound counts from the end, and both bounds are clipped to
  the string.
\<close>

definition py_slice :: "int \<Rightarrow> int \<Rightarrow> 'a list \<Rightarrow> 'a list" where
  "py_slice i j xs =
     (let n = int (length xs);
          i' = (if i < 0 then max 0 (i + n) else min i n);
          j' = (if j < 0 then max 0 (j + n) else min j n)
      in take (nat (j' - i')) (drop (nat i') xs))"

text \<open>\<open>s.replace(old, new)\<close> for one-character \<open>old\<close> and \<open>new\<close>.\<close>

definition replace_char :: "char \<Rightarrow> char \<Rightarrow> string \<Rightarrow> string" where
  "replace_char old new s = map (\<lambda>c. if c = old then new else c) s"

text \<open>Lines 116 to 118 of \<open>NewConnection\<close>.\<close>

definition derive_address :: "string \<Rightarrow> string" where
  "derive_address path =
     (let address = path;
          address = py_slice (int (length address) - 17) (int (length address)) address
      in replace_char (CHR ''_'') (CHR '':'') address)"

subsection \<open>SerialPort\<close>

definition profile_path :: string where
  "profile_path = ''/org/bluez/myprofile''"

record SerialPort =
  uuid :: string
  channel :: nat

definition SerialPort_init :: "nat \<Rightarrow> SerialPort" where
  "SerialPort_init ch = \<lparr>uuid = ''1101'', channel = ch\<rparr>"

text \<open>
  The proxy call \<open>manager.RegisterProfile\<close>: an error reply of the control plane is raised
  by the D-Bus library as \<open>DBusException\<close>.
\<close>

definition manager_RegisterProfile ::
  "env \<Rightarrow> string \<Rightarrow> string \<Rightarrow> nat \<Rightarrow> world \<Rightarrow> (exn + unit) \<times> world" where
  "manager_RegisterProfile env p u ch w =
     (let w1 = log (RegisterProfile p u ch) w
      in case register_reply env of
           Reply \<Rightarrow> (Inr (), w1)
         | ErrorReply m \<Rightarrow> (Inl (DBusException m), w1))"

definition manager_UnregisterProfile :: "env \<Rightarrow> string \<Rightarrow> world \<Rightarrow> (exn + unit) \<times> world" where
  "manager_UnregisterProfile env p w =
     (let w1 = log (UnregisterProfile p) w
      in case unregister_reply env of
           Reply \<Rightarrow> (Inr (), w1)
         | ErrorReply m \<Rightarrow> (Inl (DBusException m), w1))"

definition SerialPort_initialize :: "env \<Rightarrow> SerialPort \<Rightarrow> world \<Rightarrow> (exn + bool) \<times> world" where
  "SerialPort_initialize env self w =
     (case manager_RegisterProfile env profile_path (uuid self) (channel self) w of
        (Inl error, w1) \<Rightarrow>
          if is_DBusException error then (Inr False, log (Print (message error)) w1)
          else (Inl error, w1)
      | (Inr u, w1) \<Rightarrow> (Inr True, w1))"

definition SerialPort_deinitialize :: "env \<Rightarrow> SerialPort \<Rightarrow> world \<Rightarrow> (exn + unit) \<times> world" where
  "SerialPort_deinitialize env self w =
     (case manager_UnregisterProfile env profile_path w of
        (Inl error, w1) \<Rightarrow>
          if is_DBusException error then (Inr (), w1) else (Inl error, w1)
      | (Inr u, w1) \<Rightarrow> (Inr (), w1))"

subsection \<open>TCPServer\<close>

text \<open>
  A socket object is represented by its state: created, bound to a port, listening on a
  port, connected, or closed. A listening socket holds its port; closing it releases the
  port.
\<close>

datatype sock = Fresh | Bound int | Listening int | Connected | Closed

record TCPServer =
  server_socket :: "sock option"
  client_socket :: "sock option"
  address :: "string \<times> int"
  buffer_size :: nat

definition TCPServer_init :: "int \<Rightarrow> TCPServer" where
  "TCPServer_init port =
     \<lparr>server_socket = None, client_socket = None,
      address = (''localhost'', port), buffer_size = 1024\<rparr>"

text \<open>
  Lines 59 to 69. Each of \<open>socket\<close>, \<open>setsockopt\<close>, \<open>bind\<close> and \<open>listen\<close> can raise
  \<open>socket.error\<close>; the handler prints the error and returns \<open>False\<close>, and the socket object
  created before stays in \<open>server_socket\<close>. \<open>bind\<close> first converts the port to a C
  integer, then resolves the host name (a failure is a \<open>socket.error\<close>), then checks the
  port: a port that is no C integer or lies outside 0 to 65535 raises \<open>OverflowError\<close>,
  which is no \<open>socket.error\<close> and leaves \<open>initialize\<close>. The socket has
  \<open>SO_REUSEADDR\<close> set, so \<open>bind\<close> fails with address already in use only on a port that a
  listening socket holds. Port 0, for which the system picks a free port, is not
  distinguished from the other ports.
\<close>

definition TCPServer_initialize ::
  "env \<Rightarrow> TCPServer \<Rightarrow> world \<Rightarrow> (exn + bool) \<times> TCPServer \<times> world" where
  "TCPServer_initialize env self w =
     (case socket_error env AtSocket of
        Some m \<Rightarrow> (Inr False, self, log (Print m) w)
      | None \<Rightarrow>
          (let self1 = self\<lparr>server_socket := Some Fresh\<rparr>;
               w1 = fd_open ListenerFd w;
               port = snd (address self1)
           in case socket_error env AtSetsockopt of
                Some m \<Rightarrow> (Inr False, self1, log (Print m) w1)
              | None \<Rightarrow>
                  if port < - 2147483648 \<or> 2147483647 < port
                  then (Inl OverflowError, self1, w1)
                  else
                  (case socket_error env AtResolve of
                     Some m \<Rightarrow> (Inr False, self1, log (Print m) w1)
                   | None \<Rightarrow>
                       if port < 0 \<or> 65535 < port then (Inl OverflowError, self1, w1)
                       else
                         (case socket_error env AtBind of
                            Some m \<Rightarrow> (Inr False, self1, log (Print m) w1)
                          | None \<Rightarrow>
                              if port \<in> bound w1
                              then (Inr False, self1,
                                    log (Print ''[Errno 98] Address already in use'') w1)
                              else
                                (let self2 = self1\<lparr>server_socket := Some (Bound port)\<rparr>
                                 in case socket_error env AtListen of
                                      Some m \<Rightarrow> (Inr False, self2, log (Print m) w1)
                                    | None \<Rightarrow>
                                        (Inr True,
                                         self2\<lparr>server_socket := Some (Listening port)\<rparr>,
                                         w1\<lparr>bound := insert port (bound w1)\<rparr>))))))"

definition accept_connection ::
  "env \<Rightarrow> TCPServer \<Rightarrow> world \<Rightarrow> ((exn + string) \<times> TCPServer \<times> world) option" where
  "accept_connection env self w =
     (case server_socket self of
        None \<Rightarrow> Some (Inl AttributeError, self, w)
      | Some s \<Rightarrow>
          (case s of
             Listening p \<Rightarrow>
               (case accept_result env of
                  Accepted client_info \<Rightarrow>
                    Some (Inr client_info, self\<lparr>client_socket := Some Connected\<rparr>,
                          fd_open ClientFd w)
                | AcceptError \<Rightarrow> Some (Inl SocketError, self, w)
                | AcceptBlocks \<Rightarrow> None)
           | _ \<Rightarrow> Some (Inl SocketError, self, w)))"

text \<open>
  \<open>close()\<close> of a Python 2 socket object never raises, and does nothing on a socket that
  is closed already. \<open>d\<close> is the descriptor of the socket.
\<close>

definition sock_close :: "descriptor \<Rightarrow> sock \<Rightarrow> world \<Rightarrow> sock \<times> world" where
  "sock_close d s w =
     (if s = Closed then (Closed, w)
      else (Closed,
            case s of
              Listening p \<Rightarrow> (fd_close d w)\<lparr>bound := bound w - {p}\<rparr>
            | _ \<Rightarrow> fd_close d w))"

text \<open>
  \<open>self.client_socket.close()\<close> on \<open>None\<close> raises \<open>AttributeError\<close>, and the second line is
  not reached.
\<close>

definition kill_connection :: "TCPServer \<Rightarrow> world \<Rightarrow> (exn + unit) \<times> TCPServer \<times> world" where
  "kill_connection self w =
     (case client_socket self of
        None \<Rightarrow> (Inl AttributeError, self, w)
      | Some c \<Rightarrow>
          (let (c', w1) = sock_close ClientFd c w;
               self1 = self\<lparr>client_socket := Some c'\<rparr>;
               w2 = log ClientClose w1
           in case server_socket self1 of
                None \<Rightarrow> (Inl AttributeError, self1, w2)
              | Some s \<Rightarrow>
                  (let (s', w3) = sock_close ListenerFd s w2
                   in (Inr (), self1\<lparr>server_socket := Some s'\<rparr>, log ListenerClose w3))))"

text \<open>
  \<open>self.client_socket.recv(self.buffer_size)\<close>. An entry of the script is what one call
  returns; the operating system hands over at most \<open>buffer_size\<close> bytes per call.
\<close>

definition TCPServer_read :: "env \<Rightarrow> TCPServer \<Rightarrow> world \<Rightarrow> ((exn + string) \<times> world) option" where
  "TCPServer_read env self w =
     (case client_socket self of
        None \<Rightarrow> Some (Inl AttributeError, w)
      | Some c \<Rightarrow>
          if c \<noteq> Connected then Some (Inl SocketError, w)
          else (case recv_script env (reads w) of
                  RecvData d \<Rightarrow> Some (Inr d, w\<lparr>reads := Suc (reads w)\<rparr>)
                | RecvError \<Rightarrow> Some (Inl SocketError, w\<lparr>reads := Suc (reads w)\<rparr>)
                | RecvBlocks \<Rightarrow> None))"

subsection \<open>The Bluetooth-side socket and the disconnect collaborator\<close>

text \<open>
  \<open>fd.take()\<close> hands the descriptor of the transport handle over to the program.
  \<open>socket.fromfd\<close> duplicates the descriptor it is given and builds the socket object on
  the duplicate; \<open>server_sock.close()\<close> closes the duplicate.
\<close>

definition fd_take :: "world \<Rightarrow> world" where
  "fd_take w = log TakeFd (fd_open TransportFd w)"

definition socket_fromfd :: "env \<Rightarrow> world \<Rightarrow> (exn + unit) \<times> world" where
  "socket_fromfd env w =
     (if fromfd_ok env then (Inr (), fd_open BtSockFd w) else (Inl SocketError, w))"

definition server_sock_close :: "world \<Rightarrow> world" where
  "server_sock_close w = log BtClose (fd_close BtSockFd w)"

text \<open>
  \<open>server_sock.send(data)\<close> transmits a prefix of the chunk and returns its length, or
  raises; the source discards the number returned.
\<close>

definition server_sock_send :: "env \<Rightarrow> string \<Rightarrow> world \<Rightarrow> (exn + nat) \<times> world" where
  "server_sock_send env d w =
     (let w1 = w\<lparr>sends := Suc (sends w)\<rparr>
      in case send_script env (sends w) of
           SendError \<Rightarrow> (Inl SocketError, log (BtSendFailed d) w1)
         | Sent n \<Rightarrow> (Inr (min n (length d)), log (BtSend (take n d)) w1))"

text \<open>
  \<open>Bluetooth()\<close>, bluetool.py lines 38 to 42: \<open>dbus.SystemBus()\<close> and
  \<open>bluezutils.find_adapter\<close> are called with no handler around them, so what they raise
  leaves the constructor.
\<close>

definition Bluetooth_init :: "env \<Rightarrow> world \<Rightarrow> (exn + unit) \<times> world" where
  "Bluetooth_init env w =
     (case bluetooth_init env of Some e \<Rightarrow> (Inl e, w) | None \<Rightarrow> (Inr (), w))"

text \<open>
  \<open>disconnect(address)\<close> of bluetool.py catches the errors of its calls and returns a
  boolean. The call is recorded; its result comes from the environment.
\<close>

definition Bluetooth_disconnect :: "env \<Rightarrow> string \<Rightarrow> world \<Rightarrow> bool \<times> world" where
  "Bluetooth_disconnect env a w = (disconnect_result env, log (Disconnect a) w)"

subsection \<open>BluetoothServer\<close>

datatype process = Process

record BluetoothServer =
  spp :: SerialPort
  tcp_port :: int
  server_process :: "process option"

definition BluetoothServer_init :: "int \<Rightarrow> nat \<Rightarrow> BluetoothServer" where
  "BluetoothServer_init port ch =
     \<lparr>spp = SerialPort_init ch, tcp_port = port, server_process = None\<rparr>"

definition run ::
  "env \<Rightarrow> BluetoothServer \<Rightarrow> world \<Rightarrow> (exn + bool) \<times> BluetoothServer \<times> world" where
  "run env self w =
     (case SerialPort_initialize env (spp self) w of
        (Inl e, w1) \<Rightarrow> (Inl e, self, w1)
      | (Inr ok, w1) \<Rightarrow>
          if \<not> ok then (Inr False, self, w1)
          else (Inr True, self\<lparr>server_process := Some Process\<rparr>, log ProcessStart w1))"

definition quit ::
  "env \<Rightarrow> BluetoothServer \<Rightarrow> world \<Rightarrow> (exn + unit) \<times> BluetoothServer \<times> world" where
  "quit env self w =
     (let (self1, w1) =
            (case server_process self of
               Some p \<Rightarrow>
                 (self\<lparr>server_process := None\<rparr>,
                  log ProcessJoin (log ProcessTerminate (log MainloopQuit w)))
             | None \<Rightarrow> (self, w))
      in case SerialPort_deinitialize env (spp self1) w1 of
           (r, w2) \<Rightarrow> (r, self1, w2))"

text \<open>
  The relay loop, lines 134 to 138. \<open>while True\<close> is left only by an exception, so the
  loop returns the exception raised; \<open>None\<close> is a loop that never ends (a \<open>recv\<close> that
  blocks for ever, or a client that never stops sending).
\<close>

partial_function (option) relay_loop :: "env \<Rightarrow> TCPServer \<Rightarrow> world \<Rightarrow> (exn \<times> world) option" where
  "relay_loop env tcp_server w =
     (case TCPServer_read env tcp_server w of
        None \<Rightarrow> None
      | Some (Inl e, w1) \<Rightarrow> Some (e, w1)
      | Some (Inr d, w1) \<Rightarrow>
          if d = [] then Some (TCPConnectionError ''External connection shutdown'', w1)
          else (case server_sock_send env d w1 of
                  (Inl e, w2) \<Rightarrow> Some (e, w2)
                | (Inr n, w2) \<Rightarrow> relay_loop env tcp_server w2))"

declare relay_loop.simps [code]

text \<open>The inner \<open>try\<close> with its two handlers, lines 133 to 142.\<close>

definition relay_try :: "env \<Rightarrow> TCPServer \<Rightarrow> world \<Rightarrow> ((exn + unit) \<times> world) option" where
  "relay_try env tcp_server w =
     (case relay_loop env tcp_server w of
        None \<Rightarrow> None
      | Some (e, w1) \<Rightarrow>
          if is_IOError e
          then Some (Inr (), log (Print ''Abort connection by user from bluetooth device'') w1)
          else if is_TCPConnectionError e then Some (Inr (), log (Print (message e)) w1)
          else Some (Inl e, w1))"

text \<open>
  The body of the outer \<open>try\<close>, lines 123 to 145. \<open>setblocking(1)\<close> on the new socket has
  no event.
\<close>

definition NewConnection_try ::
  "env \<Rightarrow> BluetoothServer \<Rightarrow> world \<Rightarrow> ((exn + unit) \<times> world) option" where
  "NewConnection_try env self w =
     (case TCPServer_initialize env (TCPServer_init (tcp_port self)) w of
        (Inl e, tcp_server, w1) \<Rightarrow> Some (Inl e, w1)
      | (Inr ok, tcp_server, w1) \<Rightarrow>
          if \<not> ok then Some (Inl (TCPServerError ''TCP server did not start''), w1)
          else
            (case accept_connection env tcp_server
                    (log (PrintItem ''Connected:'') (log (Print ''Waiting for TCPClient...'') w1)) of
               None \<Rightarrow> None
             | Some (Inl e, tcp_server1, w2) \<Rightarrow> Some (Inl e, w2)
             | Some (Inr client_info, tcp_server1, w2) \<Rightarrow>
                 (case socket_fromfd env
                         (fd_take (log PrintNewline (log (PrintItem client_info) w2))) of
                    (Inl e, w3) \<Rightarrow> Some (Inl e, w3)
                  | (Inr u, w3) \<Rightarrow>
                      (case relay_try env tcp_server1 w3 of
                         None \<Rightarrow> None
                       | Some (Inl e, w4) \<Rightarrow> Some (Inl e, w4)
                       | Some (Inr u, w4) \<Rightarrow>
                           (case kill_connection tcp_server1 (server_sock_close w4) of
                              (Inl e, tcp_server2, w5) \<Rightarrow> Some (Inl e, w5)
                            | (Inr v, tcp_server2, w5) \<Rightarrow> Some (Inr (), w5))))))"

text \<open>
  Lines 149 and 150, after the \<open>try\<close> statement: an exception of the constructor leaves
  the callback before \<open>disconnect\<close> is called.
\<close>

definition NewConnection_finish :: "env \<Rightarrow> string \<Rightarrow> world \<Rightarrow> (exn + unit) \<times> world" where
  "NewConnection_finish env a w =
     (case Bluetooth_init env w of
        (Inl e, w1) \<Rightarrow> (Inl e, w1)
      | (Inr bluetooth, w1) \<Rightarrow> (Inr (), snd (Bluetooth_disconnect env a w1)))"

text \<open>
  The callback, lines 115 to 150. The outer handler catches \<open>TCPServerError\<close> only; any
  other exception leaves the callback.
\<close>

definition NewConnection ::
  "env \<Rightarrow> BluetoothServer \<Rightarrow> string \<Rightarrow> world \<Rightarrow> ((exn + unit) \<times> world) option" where
  "NewConnection env self path w =
     (let address = derive_address path;
          w1 = log (Print (''Connected: '' @ address)) w
      in case NewConnection_try env self w1 of
           None \<Rightarrow> None
         | Some (Inl e, w2) \<Rightarrow>
             if is_TCPServerError e
             then Some (NewConnection_finish env address (log (Print (message e)) w2))
             else Some (Inl e, w2)
         | Some (Inr u, w2) \<Rightarrow> Some (NewConnection_finish env address w2))"

subsection \<open>Notions used in the statements\<close>

text \<open>The events that a call of \<open>send\<close> on the Bluetooth-side socket leaves in the trace.\<close>

fun is_send_event :: "event \<Rightarrow> bool" where
  "is_send_event (BtSend d) = True"
| "is_send_event (BtSendFailed d) = True"
| "is_send_event e = False"

text \<open>What the calls of \<open>send\<close> transmit of the chunks \<open>bs\<close> when they send \<open>ns\<close> bytes.\<close>

definition transmitted :: "string list \<Rightarrow> nat list \<Rightarrow> string list" where
  "transmitted bs ns = map (\<lambda>(b, n). take n b) (zip bs ns)"

text \<open>
  The \<open>TCPServer\<close> object and the world at the entry of the relay loop of a session whose
  listener was set up, whose client was accepted and whose transport handle was wrapped;
  the world after the chunks \<open>bs\<close> were read and \<open>ns\<close> bytes of each sent; and the world
  after the lines 144 and 145 (the close of the Bluetooth-side socket and
  \<open>kill_connection\<close>).
\<close>

definition session_server :: "int \<Rightarrow> TCPServer" where
  "session_server port =
     (TCPServer_init port)\<lparr>server_socket := Some (Listening port), client_socket := Some Connected\<rparr>"

definition session_start :: "int \<Rightarrow> string \<Rightarrow> string \<Rightarrow> world \<Rightarrow> world" where
  "session_start port a info w =
     w\<lparr>bound := insert port (bound w),
       open_fds := add_mset BtSockFd (add_mset TransportFd (add_mset ClientFd
                     (add_mset ListenerFd (open_fds w)))),
       trace := trace w @ [Print (''Connected: '' @ a), Print ''Waiting for TCPClient...'',
                           PrintItem ''Connected:'', PrintItem info, PrintNewline, TakeFd]\<rparr>"

definition relayed :: "string list \<Rightarrow> nat list \<Rightarrow> world \<Rightarrow> world" where
  "relayed bs ns w =
     w\<lparr>reads := reads w + length bs, sends := sends w + length bs,
       trace := trace w @ map BtSend (transmitted bs ns)\<rparr>"

definition session_closed :: "int \<Rightarrow> world \<Rightarrow> world" where
  "session_closed port w =
     w\<lparr>bound := bound w - {port},
       open_fds := open_fds w - {#BtSockFd#} - {#ClientFd#} - {#ListenerFd#},
       trace := trace w @ [BtClose, ClientClose, ListenerClose]\<rparr>"

subsection \<open>Concrete inputs\<close>

definition ex_path :: string where
  "ex_path = ''/org/bluez/hci0/dev_AA_BB_CC_DD_EE_FF''"

definition ex_server :: BluetoothServer where
  "ex_server = BluetoothServer_init 8043 1"

text \<open>A server configured with a port that is no TCP port.\<close>

definition ex_server_port_70000 :: BluetoothServer where
  "ex_server_port_70000 = BluetoothServer_init 70000 1"

definition ex_world :: world where
  "ex_world = \<lparr>bound = {}, open_fds = {#}, reads = 0, sends = 0, trace = []\<rparr>"

text \<open>The same world with a listening socket of another process on port 8043.\<close>

definition ex_world_busy :: world where
  "ex_world_busy = \<lparr>bound = {8043}, open_fds = {#}, reads = 0, sends = 0, trace = []\<rparr>"

text \<open>A client that sends \<open>ab\<close>, \<open>cd\<close>, \<open>ef\<close>, \<open>gh\<close> and closes; nothing fails.\<close>

definition ex_env :: env where
  "ex_env =
     \<lparr>register_reply = Reply, unregister_reply = Reply,
      socket_error = (\<lambda>s. None),
      accept_result = Accepted ''127.0.0.1:50000'', fromfd_ok = True,
      recv_script = (\<lambda>i. if i = 0 then RecvData ''ab'' else if i = 1 then RecvData ''cd''
                          else if i = 2 then RecvData ''ef'' else if i = 3 then RecvData ''gh''
                          else RecvData []),
      send_script = (\<lambda>k. Sent 2), bluetooth_init = None, disconnect_result = True\<rparr>"

text \<open>The same client, with a Bluetooth-side socket whose fourth \<open>send\<close> raises.\<close>

definition ex_env_abort :: env where
  "ex_env_abort = ex_env\<lparr>send_script := (\<lambda>k. if k = 3 then SendError else Sent 2)\<rparr>"

text \<open>The same client, with a second \<open>send\<close> that transmits one byte of its two.\<close>

definition ex_env_partial :: env where
  "ex_env_partial = ex_env\<lparr>send_script := (\<lambda>k. if k = 1 then Sent 1 else Sent 2)\<rparr>"

text \<open>A constructor \<open>Bluetooth()\<close> that raises, with and without the failing \<open>send\<close>.\<close>

definition ex_env_no_adapter :: env where
  "ex_env_no_adapter = ex_env\<lparr>bluetooth_init := Some (BluezUtilError ''Bluetooth adapter not found'')\<rparr>"

definition ex_env_abort_no_adapter :: env where
  "ex_env_abort_no_adapter =
     ex_env_abort\<lparr>bluetooth_init := Some (BluezUtilError ''Bluetooth adapter not found'')\<rparr>"

text \<open>An \<open>accept\<close> that raises \<open>socket.error\<close>.\<close>

definition ex_env_accept_error :: env where
  "ex_env_accept_error = ex_env\<lparr>accept_result := AcceptError\<rparr>"


text \<open>A control plane that rejects the registration and the unregistration alike.\<close>

definition ex_env_rejected :: env where
  "ex_env_rejected =
     ex_env\<lparr>register_reply := ErrorReply ''org.bluez.Error.AlreadyExists'',
            unregister_reply := ErrorReply ''org.bluez.Error.DoesNotExist''\<rparr>"

section \<open>Properties\<close>

subsection \<open>The relay loop\<close>

lemma transmitted_all: "transmitted bs (map length bs) = bs"
  by (induction bs) (simp_all add: transmitted_def)

lemma relay_loop_sent:
  assumes "client_socket t = Some Connected"
    and "length ns = length bs"
    and "\<forall>j<length bs. recv_script env (reads w + j) = RecvData (bs ! j)"
    and "\<forall>b\<in>set bs. b \<noteq> []"
    and "\<forall>j<length bs. send_script env (sends w + j) = Sent (ns ! j)"
  shows "relay_loop env t w = relay_loop env t (relayed bs ns w)"
  using assms
proof (induction bs arbitrary: w ns)
  case Nil
  then show ?case by (simp add: relayed_def transmitted_def)
next
  case (Cons b bs)
  from Cons.prems(2) obtain n ns' where ns: "ns = n # ns'" and len: "length ns' = length bs"
    by (cases ns) auto
  let ?w2 = "log (BtSend (take n b)) (w\<lparr>reads := Suc (reads w), sends := Suc (sends w)\<rparr>)"
  from Cons.prems have r0: "recv_script env (reads w) = RecvData b" by fastforce
  from Cons.prems ns have s0: "send_script env (sends w) = Sent n" by fastforce
  from Cons.prems have b0: "b \<noteq> []" by simp
  have step: "relay_loop env t w = relay_loop env t ?w2"
    using Cons.prems(1) r0 s0 b0
    by (subst relay_loop.simps) (simp add: TCPServer_read_def server_sock_send_def Let_def log_def)
  have "\<forall>j<length bs. recv_script env (reads ?w2 + j) = RecvData (bs ! j)"
    using Cons.prems(3) by (auto simp: log_def)
  moreover have "\<forall>j<length bs. send_script env (sends ?w2 + j) = Sent (ns' ! j)"
    using Cons.prems(5) ns by (auto simp: log_def)
  moreover have "\<forall>b\<in>set bs. b \<noteq> []" using Cons.prems(4) by simp
  ultimately have "relay_loop env t ?w2 = relay_loop env t (relayed bs ns' ?w2)"
    using Cons.IH [of ns' ?w2] Cons.prems(1) len by blast
  with step show ?case by (simp add: log_def relayed_def transmitted_def ns)
qed

lemma relay_loop_eof:
  assumes "client_socket t = Some Connected"
    and "recv_script env (reads w) = RecvData []"
  shows "relay_loop env t w =
         Some (TCPConnectionError ''External connection shutdown'', w\<lparr>reads := Suc (reads w)\<rparr>)"
  using assms by (subst relay_loop.simps) (simp add: TCPServer_read_def)

lemma relay_loop_recv_error:
  assumes "client_socket t = Some Connected"
    and "recv_script env (reads w) = RecvError"
  shows "relay_loop env t w = Some (SocketError, w\<lparr>reads := Suc (reads w)\<rparr>)"
  using assms by (subst relay_loop.simps) (simp add: TCPServer_read_def)

lemma relay_loop_send_error:
  assumes "client_socket t = Some Connected"
    and "recv_script env (reads w) = RecvData d" and "d \<noteq> []"
    and "send_script env (sends w) = SendError"
  shows "relay_loop env t w =
         Some (SocketError, log (BtSendFailed d) (w\<lparr>reads := Suc (reads w), sends := Suc (sends w)\<rparr>))"
  using assms
  by (subst relay_loop.simps) (simp add: TCPServer_read_def server_sock_send_def Let_def)

text \<open>
  Whatever leaves the loop is caught by one of the two handlers of the inner \<open>try\<close>,
  and the loop itself closes nothing and releases no port.
\<close>

lemma relay_loop_Some:
  assumes "relay_loop env t w = Some y"
  shows "client_socket t = Some Connected \<longrightarrow>
         (is_IOError (fst y) \<or> is_TCPConnectionError (fst y)) \<and> bound (snd y) = bound w \<and>
         open_fds (snd y) = open_fds w \<and>
         (\<exists>evs. trace (snd y) = trace w @ evs \<and> list_all is_send_event evs)"
  using assms
proof (induction rule: relay_loop.raw_induct [rotated 1, consumes 1])
  case (1 relay_loop env t w y)
  show ?case
  proof
    assume c: "client_socket t = Some Connected"
    show "(is_IOError (fst y) \<or> is_TCPConnectionError (fst y)) \<and> bound (snd y) = bound w \<and>
         open_fds (snd y) = open_fds w \<and>
         (\<exists>evs. trace (snd y) = trace w @ evs \<and> list_all is_send_event evs)"
    proof (cases "recv_script env (reads w)")
      case (RecvData d)
      show ?thesis
      proof (cases "d = []")
        case True
        with 1(2) c RecvData show ?thesis by (auto simp: TCPServer_read_def)
      next
        case False
        show ?thesis
        proof (cases "send_script env (sends w)")
          case SendError
          with 1(2) c RecvData False show ?thesis
            by (auto simp: TCPServer_read_def server_sock_send_def log_def)
        next
          case (Sent n)
          let ?w2 = "log (BtSend (take n d)) (w\<lparr>reads := Suc (reads w), sends := Suc (sends w)\<rparr>)"
          from 1(2) c RecvData False Sent have "relay_loop env t ?w2 = Some y"
            by (simp add: TCPServer_read_def server_sock_send_def Let_def)
          from 1(1) [OF this] c obtain evs where
            "is_IOError (fst y) \<or> is_TCPConnectionError (fst y)" "bound (snd y) = bound ?w2"
            "open_fds (snd y) = open_fds ?w2"
            "trace (snd y) = trace ?w2 @ evs" "list_all is_send_event evs" by blast
          then show ?thesis by (auto simp: log_def)
        qed
      qed
    next
      case RecvError
      with 1(2) c show ?thesis by (auto simp: TCPServer_read_def)
    next
      case RecvBlocks
      with 1(2) c show ?thesis by (auto simp: TCPServer_read_def)
    qed
  qed
qed

lemma relay_try_result:
  assumes "client_socket t = Some Connected"
  shows "relay_try env t w =
     (case relay_loop env t w of
        None \<Rightarrow> None
      | Some (e, w1) \<Rightarrow>
          Some (Inr (), log (Print (if is_IOError e
                 then ''Abort connection by user from bluetooth device'' else message e)) w1))"
proof (cases "relay_loop env t w")
  case None
  then show ?thesis by (simp add: relay_try_def)
next
  case (Some y)
  from relay_loop_Some [OF Some] assms
  have "is_IOError (fst y) \<or> is_TCPConnectionError (fst y)" by blast
  with Some show ?thesis by (cases y) (auto simp: relay_try_def)
qed

subsection \<open>Setting up the listener\<close>

lemma TCPServer_initialize_log:
  "fst (TCPServer_initialize env t (log e w)) = fst (TCPServer_initialize env t w)"
  by (simp add: TCPServer_initialize_def Let_def log_def fd_open_def split: option.split)

lemma TCPServer_initialize_env:
  "socket_error env' = socket_error env \<Longrightarrow>
   TCPServer_initialize env' t w = TCPServer_initialize env t w"
  unfolding TCPServer_initialize_def by (erule ssubst) (rule refl)

lemma TCPServer_initialize_True:
  assumes "fst (TCPServer_initialize env (TCPServer_init port) w) = Inr True"
  shows "TCPServer_initialize env (TCPServer_init port) w =
           (Inr True, (TCPServer_init port)\<lparr>server_socket := Some (Listening port)\<rparr>,
            (fd_open ListenerFd w)\<lparr>bound := insert port (bound w)\<rparr>)"
    and "port \<notin> bound w"
  using assms
  by (auto simp: TCPServer_initialize_def TCPServer_init_def Let_def log_def fd_open_def
      split: option.splits if_splits)


subsection \<open>The session around the relay loop\<close>

text \<open>
  A session whose listener is set up, whose client is accepted and whose transport handle
  is wrapped is the relay loop between \<open>session_start\<close> and \<open>session_closed\<close>, followed
  by the lines 149 and 150.
\<close>

lemma NewConnection_try_at_loop:
  assumes "fst (TCPServer_initialize env (TCPServer_init (tcp_port self)) w) = Inr True"
    and "accept_result env = Accepted info" and "fromfd_ok env"
  shows "NewConnection_try env self (log (Print (''Connected: '' @ a)) w) =
     (case relay_try env (session_server (tcp_port self)) (session_start (tcp_port self) a info w) of
        None \<Rightarrow> None
      | Some (Inl e, w4) \<Rightarrow> Some (Inl e, w4)
      | Some (Inr u, w4) \<Rightarrow> Some (Inr (), session_closed (tcp_port self) w4))"
proof -
  let ?p = "tcp_port self"
  let ?w1 = "log (Print (''Connected: '' @ a)) w"
  let ?t1 = "(TCPServer_init ?p)\<lparr>server_socket := Some (Listening ?p)\<rparr>"
  let ?w2 = "(fd_open ListenerFd ?w1)\<lparr>bound := insert ?p (bound ?w1)\<rparr>"
  let ?w3 = "log (PrintItem ''Connected:'') (log (Print ''Waiting for TCPClient...'') ?w2)"
  have "fst (TCPServer_initialize env (TCPServer_init ?p) ?w1) = Inr True"
    using assms(1) by (simp only: TCPServer_initialize_log)
  then have init: "TCPServer_initialize env (TCPServer_init ?p) ?w1 = (Inr True, ?t1, ?w2)"
    by (rule TCPServer_initialize_True(1))
  have acc: "accept_connection env ?t1 ?w3 = Some (Inr info, session_server ?p, fd_open ClientFd ?w3)"
    using assms(2) by (simp add: accept_connection_def session_server_def)
  have ws: "socket_fromfd env (fd_take (log PrintNewline (log (PrintItem info) (fd_open ClientFd ?w3)))) =
            (Inr (), session_start ?p a info w)"
    using assms(3) by (simp add: socket_fromfd_def fd_take_def fd_open_def log_def session_start_def)
  have kill: "kill_connection (session_server ?p) (server_sock_close w4) =
        (Inr (), (session_server ?p)\<lparr>client_socket := Some Closed, server_socket := Some Closed\<rparr>,
         session_closed ?p w4)" for w4
    by (simp add: kill_connection_def session_server_def sock_close_def log_def Let_def
        server_sock_close_def fd_close_def session_closed_def)
  show ?thesis
    by (simp only: NewConnection_try_def init prod.case sum.case simp_thms if_False if_True acc
        option.case Let_def ws kill)
qed

lemma NewConnection_at_loop:
  assumes "fst (TCPServer_initialize env (TCPServer_init (tcp_port self)) w) = Inr True"
    and "accept_result env = Accepted info" and "fromfd_ok env"
  shows "NewConnection env self path w =
     (case relay_loop env (session_server (tcp_port self))
             (session_start (tcp_port self) (derive_address path) info w) of
        None \<Rightarrow> None
      | Some (e, w4) \<Rightarrow>
          Some (NewConnection_finish env (derive_address path)
             (session_closed (tcp_port self)
               (log (Print (if is_IOError e
                  then ''Abort connection by user from bluetooth device'' else message e)) w4))))"
proof -
  have c: "client_socket (session_server (tcp_port self)) = Some Connected"
    by (simp add: session_server_def)
  show ?thesis
    unfolding NewConnection_def Let_def NewConnection_try_at_loop [OF assms] relay_try_result [OF c]
    by (simp split: option.split)
qed

lemma NewConnection_after_chunks:
  assumes "fst (TCPServer_initialize env (TCPServer_init (tcp_port self)) w) = Inr True"
    and "accept_result env = Accepted info" and "fromfd_ok env"
    and "length ns = length bs"
    and "\<forall>j<length bs. recv_script env (reads w + j) = RecvData (bs ! j)"
    and "\<forall>b\<in>set bs. b \<noteq> []"
    and "\<forall>j<length bs. send_script env (sends w + j) = Sent (ns ! j)"
  shows "NewConnection env self path w =
     (case relay_loop env (session_server (tcp_port self))
             (relayed bs ns (session_start (tcp_port self) (derive_address path) info w)) of
        None \<Rightarrow> None
      | Some (e, w4) \<Rightarrow>
          Some (NewConnection_finish env (derive_address path)
             (session_closed (tcp_port self)
               (log (Print (if is_IOError e
                  then ''Abort connection by user from bluetooth device'' else message e)) w4))))"
proof -
  let ?t = "session_server (tcp_port self)"
  let ?w0 = "session_start (tcp_port self) (derive_address path) info w"
  have c: "client_socket ?t = Some Connected" by (simp add: session_server_def)
  have "relay_loop env ?t ?w0 = relay_loop env ?t (relayed bs ns ?w0)"
    using assms(5,6,7) by (intro relay_loop_sent [OF c assms(4)]) (simp_all add: session_start_def)
  then show ?thesis
    by (simp only: NewConnection_at_loop [OF assms(1,2,3)])
qed

text \<open>The whole callback for each way out of the loop, after the chunks \<open>bs\<close>.\<close>

lemma NewConnection_eof:
  assumes "fst (TCPServer_initialize env (TCPServer_init (tcp_port self)) w) = Inr True"
    and "accept_result env = Accepted info" and "fromfd_ok env"
    and "length ns = length bs"
    and "\<forall>j<length bs. recv_script env (reads w + j) = RecvData (bs ! j)"
    and "\<forall>b\<in>set bs. b \<noteq> []"
    and "\<forall>j<length bs. send_script env (sends w + j) = Sent (ns ! j)"
    and "recv_script env (reads w + length bs) = RecvData []"
  shows "NewConnection env self path w =
     Some (NewConnection_finish env (derive_address path)
       (session_closed (tcp_port self)
         (log (Print ''External connection shutdown'')
           ((relayed bs ns (session_start (tcp_port self) (derive_address path) info w))
              \<lparr>reads := Suc (reads w + length bs)\<rparr>))))"
proof -
  let ?t = "session_server (tcp_port self)"
  let ?w1 = "relayed bs ns (session_start (tcp_port self) (derive_address path) info w)"
  have c: "client_socket ?t = Some Connected" by (simp add: session_server_def)
  have r: "reads ?w1 = reads w + length bs" by (simp add: relayed_def session_start_def)
  have "relay_loop env ?t ?w1 =
        Some (TCPConnectionError ''External connection shutdown'', ?w1\<lparr>reads := Suc (reads ?w1)\<rparr>)"
    using assms(8) by (intro relay_loop_eof [OF c]) (simp add: r)
  then show ?thesis
    by (simp add: NewConnection_after_chunks [OF assms(1-7)] r)
qed

lemma NewConnection_read_error:
  assumes "fst (TCPServer_initialize env (TCPServer_init (tcp_port self)) w) = Inr True"
    and "accept_result env = Accepted info" and "fromfd_ok env"
    and "length ns = length bs"
    and "\<forall>j<length bs. recv_script env (reads w + j) = RecvData (bs ! j)"
    and "\<forall>b\<in>set bs. b \<noteq> []"
    and "\<forall>j<length bs. send_script env (sends w + j) = Sent (ns ! j)"
    and "recv_script env (reads w + length bs) = RecvError"
  shows "NewConnection env self path w =
     Some (NewConnection_finish env (derive_address path)
       (session_closed (tcp_port self)
         (log (Print ''Abort connection by user from bluetooth device'')
           ((relayed bs ns (session_start (tcp_port self) (derive_address path) info w))
              \<lparr>reads := Suc (reads w + length bs)\<rparr>))))"
proof -
  let ?t = "session_server (tcp_port self)"
  let ?w1 = "relayed bs ns (session_start (tcp_port self) (derive_address path) info w)"
  have c: "client_socket ?t = Some Connected" by (simp add: session_server_def)
  have r: "reads ?w1 = reads w + length bs" by (simp add: relayed_def session_start_def)
  have "relay_loop env ?t ?w1 = Some (SocketError, ?w1\<lparr>reads := Suc (reads ?w1)\<rparr>)"
    using assms(8) by (intro relay_loop_recv_error [OF c]) (simp add: r)
  then show ?thesis
    by (simp add: NewConnection_after_chunks [OF assms(1-7)] r)
qed

lemma NewConnection_peer_abort:
  assumes "fst (TCPServer_initialize env (TCPServer_init (tcp_port self)) w) = Inr True"
    and "accept_result env = Accepted info" and "fromfd_ok env"
    and "length ns = length bs"
    and "\<forall>j<length bs. recv_script env (reads w + j) = RecvData (bs ! j)"
    and "\<forall>b\<in>set bs. b \<noteq> []"
    and "\<forall>j<length bs. send_script env (sends w + j) = Sent (ns ! j)"
    and "recv_script env (reads w + length bs) = RecvData d" and "d \<noteq> []"
    and "send_script env (sends w + length bs) = SendError"
  shows "NewConnection env self path w =
     Some (NewConnection_finish env (derive_address path)
       (session_closed (tcp_port self)
         (log (Print ''Abort connection by user from bluetooth device'')
           (log (BtSendFailed d)
             ((relayed bs ns (session_start (tcp_port self) (derive_address path) info w))
                \<lparr>reads := Suc (reads w + length bs), sends := Suc (sends w + length bs)\<rparr>)))))"
proof -
  let ?t = "session_server (tcp_port self)"
  let ?w1 = "relayed bs ns (session_start (tcp_port self) (derive_address path) info w)"
  have c: "client_socket ?t = Some Connected" by (simp add: session_server_def)
  have r: "reads ?w1 = reads w + length bs" "sends ?w1 = sends w + length bs"
    by (simp_all add: relayed_def session_start_def)
  have "relay_loop env ?t ?w1 =
        Some (SocketError, log (BtSendFailed d) (?w1\<lparr>reads := Suc (reads ?w1), sends := Suc (sends ?w1)\<rparr>))"
    using assms(8,9,10) by (intro relay_loop_send_error [OF c]) (simp_all add: r)
  then show ?thesis
    by (simp add: NewConnection_after_chunks [OF assms(1-7)] r)
qed

lemma NewConnection_finish_ok:
  "bluetooth_init env = None \<Longrightarrow> NewConnection_finish env a w = (Inr (), log (Disconnect a) w)"
  by (simp add: NewConnection_finish_def Bluetooth_init_def Bluetooth_disconnect_def)

lemma NewConnection_finish_raises:
  "bluetooth_init env = Some e \<Longrightarrow> NewConnection_finish env a w = (Inl e, w)"
  by (simp add: NewConnection_finish_def Bluetooth_init_def)

lemma NewConnection_finish_trace:
  "\<exists>post. trace (snd (NewConnection_finish env a w)) = trace w @ post \<and>
          BtClose \<notin> set post \<and> ClientClose \<notin> set post \<and> ListenerClose \<notin> set post \<and>
          (bluetooth_init env = None \<longrightarrow>
             fst (NewConnection_finish env a w) = Inr () \<and> post = [Disconnect a])"
  by (cases "bluetooth_init env")
    (simp_all add: NewConnection_finish_ok NewConnection_finish_raises log_def)

lemma NewConnection_finish_state:
  "bound (snd (NewConnection_finish env a w)) = bound w"
  "open_fds (snd (NewConnection_finish env a w)) = open_fds w"
  by (cases "bluetooth_init env";
      simp add: NewConnection_finish_ok NewConnection_finish_raises log_def)+

subsection \<open>Concrete sessions\<close>

lemma ex_address: "derive_address ex_path = ''AA:BB:CC:DD:EE:FF''"
  by (simp add: ex_path_def derive_address_def py_slice_def replace_char_def)

lemma ex_listener:
  "fst (TCPServer_initialize ex_env (TCPServer_init (tcp_port ex_server)) ex_world) = Inr True"
  by (simp add: TCPServer_initialize_def TCPServer_init_def ex_env_def ex_server_def
      BluetoothServer_init_def ex_world_def fd_open_def Let_def)

text \<open>The session of \<open>ex_env\<close> up to the lines 149 and 150, for any \<open>send\<close> script \<open>f\<close>.\<close>

lemma ex_session_eof:
  assumes "\<forall>j<4. f j = Sent (ns ! j)" and "length ns = 4"
  shows "NewConnection (ex_env\<lparr>send_script := f, bluetooth_init := b\<rparr>) ex_server ex_path ex_world =
     Some (NewConnection_finish (ex_env\<lparr>send_script := f, bluetooth_init := b\<rparr>) ''AA:BB:CC:DD:EE:FF''
       \<lparr>bound = {}, open_fds = {#TransportFd#}, reads = 5, sends = 4,
        trace = [Print ''Connected: AA:BB:CC:DD:EE:FF'', Print ''Waiting for TCPClient...'',
                 PrintItem ''Connected:'', PrintItem ''127.0.0.1:50000'', PrintNewline, TakeFd] @
                map BtSend (transmitted [''ab'', ''cd'', ''ef'', ''gh''] ns) @
                [Print ''External connection shutdown'', BtClose, ClientClose, ListenerClose]\<rparr>)"
proof -
  let ?env = "ex_env\<lparr>send_script := f, bluetooth_init := b\<rparr>"
  let ?bs = "[''ab'', ''cd'', ''ef'', ''gh'']"
  have h1: "fst (TCPServer_initialize ?env (TCPServer_init (tcp_port ex_server)) ex_world) = Inr True"
    using ex_listener TCPServer_initialize_env [of ?env ex_env] by simp
  have h2: "accept_result ?env = Accepted ''127.0.0.1:50000''" by (simp add: ex_env_def)
  have h3: "fromfd_ok ?env" by (simp add: ex_env_def)
  have h4: "length ns = length ?bs" using assms(2) by simp
  have h5: "\<forall>j<length ?bs. recv_script ?env (reads ex_world + j) = RecvData (?bs ! j)"
    by (simp add: ex_env_def ex_world_def nth_Cons')
  have h6: "\<forall>b\<in>set ?bs. b \<noteq> []" by simp
  have h7: "\<forall>j<length ?bs. send_script ?env (sends ex_world + j) = Sent (ns ! j)"
    using assms(1) by (simp add: ex_world_def)
  have h8: "recv_script ?env (reads ex_world + length ?bs) = RecvData []"
    by (simp add: ex_env_def ex_world_def)
  show ?thesis
    unfolding NewConnection_eof [OF h1 h2 h3 h4 h5 h6 h7 h8, of ex_path] ex_address
    by (simp add: session_closed_def log_def relayed_def session_start_def ex_world_def
        ex_server_def BluetoothServer_init_def eval_nat_numeral)
qed

text \<open>The session of \<open>ex_env_abort\<close>, whose fourth \<open>send\<close> raises.\<close>

lemma ex_session_abort:
  "NewConnection (ex_env_abort\<lparr>bluetooth_init := b\<rparr>) ex_server ex_path ex_world =
     Some (NewConnection_finish (ex_env_abort\<lparr>bluetooth_init := b\<rparr>) ''AA:BB:CC:DD:EE:FF''
       \<lparr>bound = {}, open_fds = {#TransportFd#}, reads = 4, sends = 4,
        trace = [Print ''Connected: AA:BB:CC:DD:EE:FF'', Print ''Waiting for TCPClient...'',
                 PrintItem ''Connected:'', PrintItem ''127.0.0.1:50000'', PrintNewline, TakeFd,
                 BtSend ''ab'', BtSend ''cd'', BtSend ''ef'', BtSendFailed ''gh'',
                 Print ''Abort connection by user from bluetooth device'',
                 BtClose, ClientClose, ListenerClose]\<rparr>)"
proof -
  let ?env = "ex_env_abort\<lparr>bluetooth_init := b\<rparr>"
  let ?bs = "[''ab'', ''cd'', ''ef'']"
  let ?ns = "[2, 2, 2::nat]"
  have h1: "fst (TCPServer_initialize ?env (TCPServer_init (tcp_port ex_server)) ex_world) = Inr True"
    using ex_listener TCPServer_initialize_env [of ?env ex_env] by (simp add: ex_env_abort_def)
  have h2: "accept_result ?env = Accepted ''127.0.0.1:50000''"
    by (simp add: ex_env_def ex_env_abort_def)
  have h3: "fromfd_ok ?env" by (simp add: ex_env_def ex_env_abort_def)
  have h4: "length ?ns = length ?bs" by simp
  have h5: "\<forall>j<length ?bs. recv_script ?env (reads ex_world + j) = RecvData (?bs ! j)"
    by (simp add: ex_env_def ex_env_abort_def ex_world_def nth_Cons')
  have h6: "\<forall>b\<in>set ?bs. b \<noteq> []" by simp
  have h7: "\<forall>j<length ?bs. send_script ?env (sends ex_world + j) = Sent (?ns ! j)"
    by (simp add: ex_env_def ex_env_abort_def ex_world_def nth_Cons')
  have h8: "recv_script ?env (reads ex_world + length ?bs) = RecvData ''gh''"
    by (simp add: ex_env_def ex_env_abort_def ex_world_def)
  have h9: "''gh'' \<noteq> []" by simp
  have h10: "send_script ?env (sends ex_world + length ?bs) = SendError"
    by (simp add: ex_env_def ex_env_abort_def ex_world_def)
  show ?thesis
    unfolding NewConnection_peer_abort [OF h1 h2 h3 h4 h5 h6 h7 h8 h9 h10, of ex_path] ex_address
    by (simp add: session_closed_def log_def relayed_def session_start_def ex_world_def
        ex_server_def BluetoothServer_init_def transmitted_def eval_nat_numeral)
qed

subsection \<open>Claim C4: address derivation\<close>

lemma py_slice_suffix:
  "py_slice (int (length (pre @ suf)) - int (length suf)) (int (length (pre @ suf))) (pre @ suf) = suf"
  by (simp add: py_slice_def Let_def)

text \<open>
  Claim C4. For every path whose last 17 characters are \<open>suf\<close> (in particular a suffix of
  the form XX_XX_XX_XX_XX_XX), the address derived in \<open>NewConnection\<close> is \<open>suf\<close> with
  every underscore replaced by a colon.
\<close>

theorem derive_address_suffix:
  assumes "length suf = 17"
  shows "derive_address (pre @ suf) = map (\<lambda>c. if c = CHR ''_'' then CHR '':'' else c) suf"
proof -
  have "py_slice (int (length (pre @ suf)) - 17) (int (length (pre @ suf))) (pre @ suf) = suf"
    using py_slice_suffix [of pre suf] assms by simp
  then show ?thesis
    by (simp add: derive_address_def replace_char_def Let_def)
qed

theorem derive_address_suffix_witness:
  "length ''AA_BB_CC_DD_EE_FF'' = 17 \<and>
   derive_address (''/org/bluez/hci0/dev_'' @ ''AA_BB_CC_DD_EE_FF'') = ''AA:BB:CC:DD:EE:FF''"
  using derive_address_suffix [of "''AA_BB_CC_DD_EE_FF''" "''/org/bluez/hci0/dev_''"]
  by simp

subsection \<open>Claim C1: forwarding, then shutdown by the TCP client\<close>

text \<open>
  Claim C1 as stated fails in two ways. A \<open>send\<close> may transmit less than its chunk, and
  the source discards the number it returns: when the second \<open>send\<close> transmits one byte of
  \<open>cd\<close>, the Bluetooth side receives \<open>ab\<close>, \<open>c\<close>, \<open>ef\<close>, \<open>gh\<close>. And the constructor
  \<open>Bluetooth()\<close> of line 149 is called with no handler: when it raises, the exception
  leaves the callback and \<open>disconnect\<close> is not called.
\<close>

theorem relay_forwards_chunks_counterexample:
  "NewConnection ex_env_partial ex_server ex_path ex_world =
     Some (Inr (),
       \<lparr>bound = {}, open_fds = {#TransportFd#}, reads = 5, sends = 4,
        trace = [Print ''Connected: AA:BB:CC:DD:EE:FF'', Print ''Waiting for TCPClient...'',
                 PrintItem ''Connected:'', PrintItem ''127.0.0.1:50000'', PrintNewline, TakeFd,
                 BtSend ''ab'', BtSend ''c'', BtSend ''ef'', BtSend ''gh'',
                 Print ''External connection shutdown'', BtClose, ClientClose, ListenerClose,
                 Disconnect ''AA:BB:CC:DD:EE:FF'']\<rparr>) \<and>
   NewConnection ex_env_no_adapter ex_server ex_path ex_world =
     Some (Inl (BluezUtilError ''Bluetooth adapter not found''),
       \<lparr>bound = {}, open_fds = {#TransportFd#}, reads = 5, sends = 4,
        trace = [Print ''Connected: AA:BB:CC:DD:EE:FF'', Print ''Waiting for TCPClient...'',
                 PrintItem ''Connected:'', PrintItem ''127.0.0.1:50000'', PrintNewline, TakeFd,
                 BtSend ''ab'', BtSend ''cd'', BtSend ''ef'', BtSend ''gh'',
                 Print ''External connection shutdown'', BtClose, ClientClose,
                 ListenerClose]\<rparr>)"
proof -
  have p: "ex_env\<lparr>send_script := (\<lambda>k. if k = 1 then Sent 1 else Sent 2), bluetooth_init := None\<rparr> =
           ex_env_partial"
    by (simp add: ex_env_partial_def ex_env_def)
  have n: "ex_env\<lparr>send_script := (\<lambda>k. Sent 2),
             bluetooth_init := Some (BluezUtilError ''Bluetooth adapter not found'')\<rparr> =
           ex_env_no_adapter"
    by (simp add: ex_env_no_adapter_def ex_env_def)
  have a: "\<forall>j<4. (\<lambda>k. if k = 1 then Sent 1 else Sent 2) j = Sent ([2, 1, 2, 2] ! j)"
    by (simp add: nth_Cons')
  have b: "\<forall>j<4. (\<lambda>k. Sent 2) j = Sent ([2, 2, 2, 2] ! j)"
    by (simp add: nth_Cons')
  have l: "length [2, 1, 2, 2::nat] = 4" "length [2, 2, 2, 2::nat] = 4" by simp_all
  have ip: "bluetooth_init ex_env_partial = None"
    by (simp add: ex_env_partial_def ex_env_def)
  have "in": "bluetooth_init ex_env_no_adapter = Some (BluezUtilError ''Bluetooth adapter not found'')"
    by (simp add: ex_env_no_adapter_def)
  note sp = ex_session_eof [OF a l(1), of None, unfolded p]
  note sn = ex_session_eof [OF b l(2), of "Some (BluezUtilError ''Bluetooth adapter not found'')",
      unfolded n]
  show ?thesis
    by (simp add: sp sn NewConnection_finish_ok [OF ip] NewConnection_finish_raises [OF "in"]
        transmitted_def log_def)
qed

text \<open>
  Claim C1, amended. The listener is set up, a client is accepted and the transport
  handle is wrapped; the successive reads of the client socket return the non-empty chunks
  \<open>bs\<close> and then the empty string, every \<open>send\<close> transmits its whole chunk, and the
  constructor \<open>Bluetooth()\<close> does not raise. Then the callback returns normally, and what
  it did is exactly: the log lines and the taking of the handle, one \<open>send\<close> per chunk of
  \<open>bs\<close> in order, each transmitting the whole chunk, the message of \<open>TCPConnectionError\<close>,
  the three closes, and one call of \<open>disconnect\<close> with the derived address.
\<close>

theorem relay_forwards_chunks:
  assumes "fst (TCPServer_initialize env (TCPServer_init (tcp_port self)) w) = Inr True"
    and "accept_result env = Accepted info" and "fromfd_ok env"
    and "\<forall>j<length bs. recv_script env (reads w + j) = RecvData (bs ! j)"
    and "\<forall>b\<in>set bs. b \<noteq> []"
    and "recv_script env (reads w + length bs) = RecvData []"
    and "\<forall>j<length bs. send_script env (sends w + j) = Sent (length (bs ! j))"
    and "bluetooth_init env = None"
  shows "\<exists>w'. NewConnection env self path w = Some (Inr (), w') \<and>
     trace w' = trace w @
       [Print (''Connected: '' @ derive_address path), Print ''Waiting for TCPClient...'',
        PrintItem ''Connected:'', PrintItem info, PrintNewline, TakeFd] @
       map BtSend bs @
       [Print ''External connection shutdown'', BtClose, ClientClose, ListenerClose,
        Disconnect (derive_address path)]"
proof -
  have l: "length (map length bs) = length bs" by simp
  have s: "\<forall>j<length bs. send_script env (sends w + j) = Sent (map length bs ! j)"
    using assms(7) by simp
  show ?thesis
    unfolding NewConnection_eof [OF assms(1,2,3) l assms(4,5) s assms(6)]
      NewConnection_finish_ok [OF assms(8)]
    by (simp add: log_def session_closed_def relayed_def session_start_def transmitted_all)
qed

theorem relay_forwards_chunks_witness:
  "fst (TCPServer_initialize ex_env (TCPServer_init (tcp_port ex_server)) ex_world) = Inr True \<and>
   bluetooth_init ex_env = None \<and>
   (\<exists>w'. NewConnection ex_env ex_server ex_path ex_world = Some (Inr (), w') \<and>
     trace w' =
       [Print ''Connected: AA:BB:CC:DD:EE:FF'', Print ''Waiting for TCPClient...'',
        PrintItem ''Connected:'', PrintItem ''127.0.0.1:50000'', PrintNewline, TakeFd,
        BtSend ''ab'', BtSend ''cd'', BtSend ''ef'', BtSend ''gh'',
        Print ''External connection shutdown'', BtClose, ClientClose, ListenerClose,
        Disconnect ''AA:BB:CC:DD:EE:FF''])"
proof -
  have h2: "accept_result ex_env = Accepted ''127.0.0.1:50000''" by (simp add: ex_env_def)
  have h3: "fromfd_ok ex_env" by (simp add: ex_env_def)
  have h4: "\<forall>j<length [''ab'', ''cd'', ''ef'', ''gh''].
              recv_script ex_env (reads ex_world + j) = RecvData ([''ab'', ''cd'', ''ef'', ''gh''] ! j)"
    by (simp add: ex_env_def ex_world_def nth_Cons')
  have h5: "\<forall>b\<in>set [''ab'', ''cd'', ''ef'', ''gh'']. b \<noteq> []" by simp
  have h6: "recv_script ex_env (reads ex_world + length [''ab'', ''cd'', ''ef'', ''gh'']) = RecvData []"
    by (simp add: ex_env_def ex_world_def)
  have h7: "\<forall>j<length [''ab'', ''cd'', ''ef'', ''gh''].
              send_script ex_env (sends ex_world + j) = Sent (length ([''ab'', ''cd'', ''ef'', ''gh''] ! j))"
    by (simp add: ex_env_def nth_Cons')
  have h8: "bluetooth_init ex_env = None" by (simp add: ex_env_def)
  show ?thesis
    using ex_listener h8 relay_forwards_chunks [OF ex_listener h2 h3 h4 h5 h6 h7 h8, of ex_path]
    by (simp add: ex_address ex_world_def)
qed

subsection \<open>Claim C2: a listener that cannot be set up\<close>




subsection \<open>Claim C3: the endpoints are closed once on every way out of the loop\<close>

text \<open>
  Claim C3 as stated fails on the branch where the fourth \<open>send\<close> raises after three
  chunks were forwarded: when the constructor \<open>Bluetooth()\<close> of line 149 raises, the
  exception leaves the callback and \<open>disconnect\<close> is not called; and the close of the
  Bluetooth-side socket closes the duplicate that \<open>socket.fromfd\<close> made, so the descriptor
  taken from the transport handle is still open when the callback ends.
\<close>

theorem endpoints_closed_once_counterexample:
  "NewConnection ex_env_abort_no_adapter ex_server ex_path ex_world =
     Some (Inl (BluezUtilError ''Bluetooth adapter not found''),
       \<lparr>bound = {}, open_fds = {#TransportFd#}, reads = 4, sends = 4,
        trace = [Print ''Connected: AA:BB:CC:DD:EE:FF'', Print ''Waiting for TCPClient...'',
                 PrintItem ''Connected:'', PrintItem ''127.0.0.1:50000'', PrintNewline, TakeFd,
                 BtSend ''ab'', BtSend ''cd'', BtSend ''ef'', BtSendFailed ''gh'',
                 Print ''Abort connection by user from bluetooth device'',
                 BtClose, ClientClose, ListenerClose]\<rparr>)"
proof -
  have i: "bluetooth_init ex_env_abort_no_adapter = Some (BluezUtilError ''Bluetooth adapter not found'')"
    by (simp add: ex_env_abort_no_adapter_def)
  show ?thesis
    by (simp only: ex_session_abort [of "Some (BluezUtilError ''Bluetooth adapter not found'')",
          folded ex_env_abort_no_adapter_def] NewConnection_finish_raises [OF i])
qed

text \<open>
  Claim C3, amended. For every session that reaches the relay loop and ends, however the
  loop was left (also when a \<open>send\<close> raises): the socket object of the Bluetooth side,
  the client socket and the listening socket are closed, each once and in this order, after
  the loop and before the callback goes on to the lines 149 and 150; the descriptors of
  these three sockets are given back and the port of the listener is free again. When the
  constructor \<open>Bluetooth()\<close> does not raise, \<open>disconnect\<close> is then called once with the
  derived address and the callback returns normally.
\<close>

theorem endpoints_closed_once:
  assumes "fst (TCPServer_initialize env (TCPServer_init (tcp_port self)) w) = Inr True"
    and "accept_result env = Accepted info" and "fromfd_ok env"
    and "NewConnection env self path w = Some (r, w')"
  shows "(\<exists>pre post.
            trace w' = trace w @ pre @ [BtClose, ClientClose, ListenerClose] @ post \<and>
            BtClose \<notin> set (pre @ post) \<and> ClientClose \<notin> set (pre @ post) \<and>
            ListenerClose \<notin> set (pre @ post) \<and> (\<forall>a. Disconnect a \<notin> set pre) \<and>
            (bluetooth_init env = None \<longrightarrow>
               r = Inr () \<and> post = [Disconnect (derive_address path)])) \<and>
         bound w' = bound w \<and>
         count (open_fds w') BtSockFd = count (open_fds w) BtSockFd \<and>
         count (open_fds w') ClientFd = count (open_fds w) ClientFd \<and>
         count (open_fds w') ListenerFd = count (open_fds w) ListenerFd"
proof -
  let ?p = "tcp_port self"
  let ?t = "session_server ?p"
  let ?a = "derive_address path"
  let ?w0 = "session_start ?p ?a info w"
  have c: "client_socket ?t = Some Connected" by (simp add: session_server_def)
  have free: "?p \<notin> bound w" using assms(1) by (rule TCPServer_initialize_True(2))
  from assms(4) obtain e w4 where
    loop: "relay_loop env ?t ?w0 = Some (e, w4)" and
    fin: "(r, w') = NewConnection_finish env ?a
           (session_closed ?p (log (Print (if is_IOError e
              then ''Abort connection by user from bluetooth device'' else message e)) w4))"
    by (auto simp: NewConnection_at_loop [OF assms(1,2,3)] split: option.splits)
  let ?m = "Print (if is_IOError e then ''Abort connection by user from bluetooth device''
                   else message e)"
  let ?w5 = "session_closed ?p (log ?m w4)"
  from relay_loop_Some [OF loop] c obtain evs where
    evs: "trace w4 = trace ?w0 @ evs" "list_all is_send_event evs"
    and st: "bound w4 = bound ?w0" "open_fds w4 = open_fds ?w0" by auto
  from NewConnection_finish_trace [of env ?a ?w5] fin [symmetric] obtain post where
    post: "trace w' = trace ?w5 @ post" "BtClose \<notin> set post" "ClientClose \<notin> set post"
      "ListenerClose \<notin> set post"
      "bluetooth_init env = None \<longrightarrow> r = Inr () \<and> post = [Disconnect ?a]"
    by auto
  let ?pre = "[Print (''Connected: '' @ ?a), Print ''Waiting for TCPClient...'',
               PrintItem ''Connected:'', PrintItem info, PrintNewline, TakeFd] @ evs @ [?m]"
  have t: "trace w' = trace w @ ?pre @ [BtClose, ClientClose, ListenerClose] @ post"
    by (simp add: post(1) session_closed_def log_def evs(1) session_start_def)
  have "x \<notin> set evs" if "\<not> is_send_event x" for x
    using that evs(2) by (auto simp: list_all_iff)
  then have pre: "BtClose \<notin> set ?pre" "ClientClose \<notin> set ?pre" "ListenerClose \<notin> set ?pre"
    "\<forall>a. Disconnect a \<notin> set ?pre"
    by auto
  from fin [symmetric] have w': "bound w' = bound ?w5" "open_fds w' = open_fds ?w5"
    using NewConnection_finish_state [of env ?a ?w5] by simp_all
  have b: "bound w' = bound w"
    using free by (simp add: w' session_closed_def log_def st session_start_def)
  have f: "open_fds w' = add_mset TransportFd (open_fds w)"
    by (simp add: w' session_closed_def log_def st session_start_def)
  have tr: "\<exists>pre post.
            trace w' = trace w @ pre @ [BtClose, ClientClose, ListenerClose] @ post \<and>
            BtClose \<notin> set (pre @ post) \<and> ClientClose \<notin> set (pre @ post) \<and>
            ListenerClose \<notin> set (pre @ post) \<and> (\<forall>a. Disconnect a \<notin> set pre) \<and>
            (bluetooth_init env = None \<longrightarrow>
               r = Inr () \<and> post = [Disconnect (derive_address path)])"
    using t pre post(2-5) by (intro exI [of _ ?pre] exI [of _ post]) simp
  show ?thesis using tr b by (simp add: f)
qed

theorem endpoints_closed_once_witness:
  "fst (TCPServer_initialize ex_env_abort (TCPServer_init (tcp_port ex_server)) ex_world) = Inr True \<and>
   bluetooth_init ex_env_abort = None \<and>
   (\<exists>w'. NewConnection ex_env_abort ex_server ex_path ex_world = Some (Inr (), w') \<and>
      (\<exists>pre. trace w' = pre @ [BtClose, ClientClose, ListenerClose, Disconnect ''AA:BB:CC:DD:EE:FF''] \<and>
         BtClose \<notin> set pre \<and> ClientClose \<notin> set pre \<and> ListenerClose \<notin> set pre) \<and>
      bound w' = {} \<and> count (open_fds w') BtSockFd = 0 \<and> count (open_fds w') ClientFd = 0 \<and>
      count (open_fds w') ListenerFd = 0)"
proof -
  have h1: "fst (TCPServer_initialize ex_env_abort (TCPServer_init (tcp_port ex_server)) ex_world) = Inr True"
    using ex_listener TCPServer_initialize_env [of ex_env_abort ex_env] by (simp add: ex_env_abort_def)
  have h2: "accept_result ex_env_abort = Accepted ''127.0.0.1:50000''"
    by (simp add: ex_env_abort_def ex_env_def)
  have h3: "fromfd_ok ex_env_abort" by (simp add: ex_env_abort_def ex_env_def)
  have h5: "bluetooth_init ex_env_abort = None" by (simp add: ex_env_abort_def ex_env_def)
  have e: "ex_env_abort\<lparr>bluetooth_init := None\<rparr> = ex_env_abort"
    by (simp add: ex_env_abort_def ex_env_def)
  obtain w' where h4: "NewConnection ex_env_abort ex_server ex_path ex_world = Some (Inr (), w')"
    using ex_session_abort [of None, unfolded e] by (simp add: NewConnection_finish_ok [OF h5])
  from endpoints_closed_once [OF h1 h2 h3 h4] h5 obtain pre where
    "trace w' = trace ex_world @ pre @ [BtClose, ClientClose, ListenerClose] @
                  [Disconnect (derive_address ex_path)]"
    "BtClose \<notin> set pre" "ClientClose \<notin> set pre" "ListenerClose \<notin> set pre"
    "bound w' = bound ex_world"
    "count (open_fds w') BtSockFd = count (open_fds ex_world) BtSockFd"
    "count (open_fds w') ClientFd = count (open_fds ex_world) ClientFd"
    "count (open_fds w') ListenerFd = count (open_fds ex_world) ListenerFd"
    by auto
  then show ?thesis
    using h1 h5 h4 by (auto simp: ex_address ex_world_def)
qed

subsection \<open>Claim C5: quit on a server that is not running\<close>

text \<open>
  Claim C5 as stated fails: \<open>quit\<close> on a freshly constructed server (\<open>server_process\<close>
  is \<open>None\<close>) still calls \<open>spp.deinitialize()\<close>, which sends an \<open>UnregisterProfile\<close>
  request to the control plane.
\<close>

theorem quit_not_running_counterexample:
  "server_process ex_server = None \<and>
   quit ex_env ex_server ex_world =
     (Inr (), ex_server,
      \<lparr>bound = {}, open_fds = {#}, reads = 0, sends = 0,
       trace = [UnregisterProfile ''/org/bluez/myprofile'']\<rparr>)"
  by (simp add: quit_def SerialPort_deinitialize_def manager_UnregisterProfile_def log_def Let_def
      ex_server_def ex_env_def ex_world_def BluetoothServer_init_def profile_path_def)

text \<open>
  Claim C5, amended. When \<open>server_process\<close> is \<open>None\<close>, \<open>quit\<close> leaves the server
  object as it is and neither stops the event loop nor terminates or joins a process; it
  sends exactly one \<open>UnregisterProfile\<close> request for the profile path, and returns
  normally whatever the control plane replies.
\<close>

theorem quit_not_running:
  assumes "server_process self = None"
  shows "quit env self w = (Inr (), self, log (UnregisterProfile profile_path) w)"
  using assms
  by (simp add: quit_def SerialPort_deinitialize_def manager_UnregisterProfile_def Let_def
      split: dbus_reply.split)

theorem quit_not_running_witness:
  "server_process ex_server = None \<and>
   quit ex_env_rejected ex_server ex_world =
     (Inr (), ex_server, log (UnregisterProfile profile_path) ex_world)"
proof -
  have h: "server_process ex_server = None"
    by (simp add: ex_server_def BluetoothServer_init_def)
  show ?thesis using h quit_not_running [OF h, of ex_env_rejected ex_world] by simp
qed

subsection \<open>Claim C6: errors that leave the callback\<close>

text \<open>
  Claim C6 as stated fails: a \<open>socket.error\<close> raised by \<open>accept\<close> is no
  \<open>TCPServerError\<close>, so the outer handler does not catch it and it leaves the callback.
  So does the \<open>OverflowError\<close> that \<open>bind\<close> raises for port 70000, which the handler of
  \<open>initialize\<close> does not catch either, and so does an exception of the constructor
  \<open>Bluetooth()\<close>, which is called after the \<open>try\<close> statement (here after a failure to
  bind).
\<close>

theorem accept_error_counterexample:
  "NewConnection ex_env_accept_error ex_server ex_path ex_world =
     Some (Inl SocketError,
       \<lparr>bound = {8043}, open_fds = {#ListenerFd#}, reads = 0, sends = 0,
        trace = [Print ''Connected: AA:BB:CC:DD:EE:FF'', Print ''Waiting for TCPClient...'',
                 PrintItem ''Connected:'']\<rparr>) \<and>
   NewConnection ex_env ex_server_port_70000 ex_path ex_world =
     Some (Inl OverflowError,
       \<lparr>bound = {}, open_fds = {#ListenerFd#}, reads = 0, sends = 0,
        trace = [Print ''Connected: AA:BB:CC:DD:EE:FF'']\<rparr>) \<and>
   NewConnection ex_env_no_adapter ex_server ex_path ex_world_busy =
     Some (Inl (BluezUtilError ''Bluetooth adapter not found''),
       \<lparr>bound = {8043}, open_fds = {#ListenerFd#}, reads = 0, sends = 0,
        trace = [Print ''Connected: AA:BB:CC:DD:EE:FF'', Print ''[Errno 98] Address already in use'',
                 Print ''TCP server did not start'']\<rparr>)"
  by (simp add: NewConnection_def NewConnection_try_def TCPServer_initialize_def TCPServer_init_def
      accept_connection_def log_def fd_open_def Let_def ex_server_def ex_server_port_70000_def
      ex_world_def ex_world_busy_def ex_env_accept_error_def ex_env_no_adapter_def ex_env_def
      BluetoothServer_init_def ex_address NewConnection_finish_def Bluetooth_init_def)

text \<open>
  Claim C6, amended. Provided the constructor \<open>Bluetooth()\<close> does not raise, the callback
  handles every \<open>socket.error\<close> of the listener's set-up and every way out of the relay
  loop: when \<open>TCPServer.initialize\<close> returns \<open>False\<close> it returns normally; when the
  listener is set up and \<open>accept\<close> and the wrapping of the transport handle succeed, no
  exception leaves it; and when the loop is left after the chunks \<open>bs\<close> by a read error,
  by a zero-length read or by a \<open>send\<close> that raises, it returns normally.
\<close>

theorem NewConnection_handled_errors:
  "(fst (TCPServer_initialize env (TCPServer_init (tcp_port self)) w) = Inr False \<and>
    bluetooth_init env = None \<longrightarrow>
      (\<exists>w'. NewConnection env self path w = Some (Inr (), w'))) \<and>
   (fst (TCPServer_initialize env (TCPServer_init (tcp_port self)) w) = Inr True \<and>
    accept_result env = Accepted info \<and> fromfd_ok env \<and> bluetooth_init env = None \<longrightarrow>
      (\<forall>e w'. NewConnection env self path w \<noteq> Some (Inl e, w'))) \<and>
   (fst (TCPServer_initialize env (TCPServer_init (tcp_port self)) w) = Inr True \<and>
    accept_result env = Accepted info \<and> fromfd_ok env \<and> bluetooth_init env = None \<and>
    (\<forall>j<length bs. recv_script env (reads w + j) = RecvData (bs ! j) \<and> bs ! j \<noteq> [] \<and>
                    send_script env (sends w + j) \<noteq> SendError) \<and>
    (recv_script env (reads w + length bs) = RecvError \<or>
     recv_script env (reads w + length bs) = RecvData [] \<or>
     (\<exists>d. recv_script env (reads w + length bs) = RecvData d \<and>
          send_script env (sends w + length bs) = SendError)) \<longrightarrow>
      (\<exists>w'. NewConnection env self path w = Some (Inr (), w')))"
proof (intro conjI impI)
  assume "fst (TCPServer_initialize env (TCPServer_init (tcp_port self)) w) = Inr False \<and>
          bluetooth_init env = None"
  then have f: "fst (TCPServer_initialize env (TCPServer_init (tcp_port self))
                  (log (Print (''Connected: '' @ derive_address path)) w)) = Inr False"
    and i: "bluetooth_init env = None"
    by (simp_all only: TCPServer_initialize_log)
  from f obtain t1 w2 where
    R: "TCPServer_initialize env (TCPServer_init (tcp_port self))
          (log (Print (''Connected: '' @ derive_address path)) w) = (Inr False, t1, w2)"
    by (cases "TCPServer_initialize env (TCPServer_init (tcp_port self))
          (log (Print (''Connected: '' @ derive_address path)) w)") auto
  have t: "NewConnection_try env self (log (Print (''Connected: '' @ derive_address path)) w) =
           Some (Inl (TCPServerError ''TCP server did not start''), w2)"
    by (simp only: NewConnection_try_def R prod.case sum.case simp_thms if_True)
  show "\<exists>w'. NewConnection env self path w = Some (Inr (), w')"
    unfolding NewConnection_def Let_def t
    by (simp add: NewConnection_finish_ok [OF i])
next
  assume a: "fst (TCPServer_initialize env (TCPServer_init (tcp_port self)) w) = Inr True \<and>
    accept_result env = Accepted info \<and> fromfd_ok env \<and> bluetooth_init env = None"
  then have r: "fst (TCPServer_initialize env (TCPServer_init (tcp_port self)) w) = Inr True"
    "accept_result env = Accepted info" "fromfd_ok env" and i: "bluetooth_init env = None"
    by simp_all
  show "\<forall>e w'. NewConnection env self path w \<noteq> Some (Inl e, w')"
    by (simp add: NewConnection_at_loop [OF r] NewConnection_finish_ok [OF i] split: option.split)
next
  assume h: "fst (TCPServer_initialize env (TCPServer_init (tcp_port self)) w) = Inr True \<and>
    accept_result env = Accepted info \<and> fromfd_ok env \<and> bluetooth_init env = None \<and>
    (\<forall>j<length bs. recv_script env (reads w + j) = RecvData (bs ! j) \<and> bs ! j \<noteq> [] \<and>
                    send_script env (sends w + j) \<noteq> SendError) \<and>
    (recv_script env (reads w + length bs) = RecvError \<or>
     recv_script env (reads w + length bs) = RecvData [] \<or>
     (\<exists>d. recv_script env (reads w + length bs) = RecvData d \<and>
          send_script env (sends w + length bs) = SendError))"
  then have r: "fst (TCPServer_initialize env (TCPServer_init (tcp_port self)) w) = Inr True"
    "accept_result env = Accepted info" "fromfd_ok env" and i: "bluetooth_init env = None"
    and c1: "\<forall>j<length bs. recv_script env (reads w + j) = RecvData (bs ! j)"
    by simp_all
  from h have c2: "\<forall>b\<in>set bs. b \<noteq> []" by (auto simp: in_set_conv_nth)
  let ?ns = "map (\<lambda>j. case send_script env (sends w + j) of Sent n \<Rightarrow> n | SendError \<Rightarrow> 0)
               [0..<length bs]"
  have l: "length ?ns = length bs" by simp
  from h have c3: "\<forall>j<length bs. send_script env (sends w + j) = Sent (?ns ! j)"
    by (auto split: send_result.splits)
  from h consider
      "recv_script env (reads w + length bs) = RecvError"
    | "recv_script env (reads w + length bs) = RecvData []"
    | d where "recv_script env (reads w + length bs) = RecvData d" "d \<noteq> []"
        "send_script env (sends w + length bs) = SendError"
    by blast
  then show "\<exists>w'. NewConnection env self path w = Some (Inr (), w')"
  proof cases
    case 1
    show ?thesis
      unfolding NewConnection_read_error [OF r l c1 c2 c3 1] NewConnection_finish_ok [OF i]
      by simp
  next
    case 2
    show ?thesis
      unfolding NewConnection_eof [OF r l c1 c2 c3 2] NewConnection_finish_ok [OF i]
      by simp
  next
    case 3
    show ?thesis
      unfolding NewConnection_peer_abort [OF r l c1 c2 c3 3] NewConnection_finish_ok [OF i]
      by simp
  qed
qed

theorem NewConnection_handled_errors_witness:
  "fst (TCPServer_initialize ex_env (TCPServer_init (tcp_port ex_server)) ex_world_busy) = Inr False \<and>
   bluetooth_init ex_env = None \<and>
   (\<exists>w'. NewConnection ex_env ex_server ex_path ex_world_busy = Some (Inr (), w')) \<and>
   fst (TCPServer_initialize ex_env_abort (TCPServer_init (tcp_port ex_server)) ex_world) = Inr True \<and>
   accept_result ex_env_abort = Accepted ''127.0.0.1:50000'' \<and> fromfd_ok ex_env_abort \<and>
   bluetooth_init ex_env_abort = None \<and>
   (\<forall>e w'. NewConnection ex_env_abort ex_server ex_path ex_world \<noteq> Some (Inl e, w')) \<and>
   (\<exists>w'. NewConnection ex_env_abort ex_server ex_path ex_world = Some (Inr (), w'))"
proof -
  have b: "fst (TCPServer_initialize ex_env (TCPServer_init (tcp_port ex_server)) ex_world_busy) = Inr False"
    by (simp add: TCPServer_initialize_def TCPServer_init_def ex_env_def ex_server_def
        BluetoothServer_init_def ex_world_busy_def fd_open_def Let_def)
  have bi: "bluetooth_init ex_env = None" by (simp add: ex_env_def)
  have f: "fst (TCPServer_initialize ex_env_abort (TCPServer_init (tcp_port ex_server)) ex_world) = Inr True"
    using ex_listener TCPServer_initialize_env [of ex_env_abort ex_env] by (simp add: ex_env_abort_def)
  have a: "accept_result ex_env_abort = Accepted ''127.0.0.1:50000'' \<and> fromfd_ok ex_env_abort \<and>
           bluetooth_init ex_env_abort = None"
    by (simp add: ex_env_abort_def ex_env_def)
  have c: "\<forall>j<length [''ab'', ''cd'', ''ef''].
             recv_script ex_env_abort (reads ex_world + j) = RecvData ([''ab'', ''cd'', ''ef''] ! j) \<and>
             [''ab'', ''cd'', ''ef''] ! j \<noteq> [] \<and>
             send_script ex_env_abort (sends ex_world + j) \<noteq> SendError"
    by (simp add: ex_env_abort_def ex_env_def ex_world_def nth_Cons')
  have x: "\<exists>d. recv_script ex_env_abort (reads ex_world + length [''ab'', ''cd'', ''ef'']) = RecvData d \<and>
               send_script ex_env_abort (sends ex_world + length [''ab'', ''cd'', ''ef'']) = SendError"
    by (simp add: ex_env_abort_def ex_env_def ex_world_def)
  show ?thesis
    using b bi f a c x
      NewConnection_handled_errors [of ex_env ex_server ex_world_busy ex_path]
      NewConnection_handled_errors [of ex_env_abort ex_server ex_world ex_path
        "''127.0.0.1:50000''" "[''ab'', ''cd'', ''ef'']"]
    by blast
qed

subsection \<open>Claim C7: run\<close>

text \<open>
  Claim C7. When the control plane rejects the registration, \<open>run\<close> returns \<open>False\<close>,
  the server object is unchanged and no process is started: the only events are the
  request and the printed error. When the registration succeeds, \<open>run\<close> stores the new
  process in \<open>server_process\<close>, starts it and returns \<open>True\<close>.
\<close>

theorem run_registration:
  "(register_reply env = ErrorReply m \<longrightarrow>
      run env self w =
        (Inr False, self,
         log (Print m) (log (RegisterProfile profile_path (uuid (spp self)) (channel (spp self))) w))) \<and>
   (register_reply env = Reply \<longrightarrow>
      run env self w =
        (Inr True, self\<lparr>server_process := Some Process\<rparr>,
         log ProcessStart
           (log (RegisterProfile profile_path (uuid (spp self)) (channel (spp self))) w)))"
  by (simp add: run_def SerialPort_initialize_def manager_RegisterProfile_def Let_def)

theorem run_registration_witness:
  "register_reply ex_env_rejected = ErrorReply ''org.bluez.Error.AlreadyExists'' \<and>
   run ex_env_rejected ex_server ex_world =
     (Inr False, ex_server,
      \<lparr>bound = {}, open_fds = {#}, reads = 0, sends = 0,
       trace = [RegisterProfile ''/org/bluez/myprofile'' ''1101'' 1,
                Print ''org.bluez.Error.AlreadyExists'']\<rparr>) \<and>
   register_reply ex_env = Reply \<and>
   run ex_env ex_server ex_world =
     (Inr True, ex_server\<lparr>server_process := Some Process\<rparr>,
      \<lparr>bound = {}, open_fds = {#}, reads = 0, sends = 0,
       trace = [RegisterProfile ''/org/bluez/myprofile'' ''1101'' 1, ProcessStart]\<rparr>)"
proof -
  have r: "register_reply ex_env_rejected = ErrorReply ''org.bluez.Error.AlreadyExists''"
    by (simp add: ex_env_rejected_def)
  have k: "register_reply ex_env = Reply" by (simp add: ex_env_def)
  have u: "uuid (spp ex_server) = ''1101''" "channel (spp ex_server) = 1"
    by (simp_all add: ex_server_def BluetoothServer_init_def SerialPort_init_def)
  show ?thesis
    using r k
      run_registration [of ex_env_rejected "''org.bluez.Error.AlreadyExists''" ex_server ex_world]
      run_registration [of ex_env "[]" ex_server ex_world]
    by (simp add: u log_def ex_world_def profile_path_def)
qed

subsection \<open>Claim C8: SerialPort.initialize\<close>

text \<open>
  Claim C8. \<open>SerialPort.initialize\<close> never raises: it returns \<open>True\<close> when the control
  plane accepts the registration and \<open>False\<close> on every error reply.
\<close>

theorem SerialPort_initialize_result:
  "fst (SerialPort_initialize env self w) = Inr (register_reply env = Reply)"
  by (simp add: SerialPort_initialize_def manager_RegisterProfile_def Let_def split: dbus_reply.split)

theorem SerialPort_initialize_result_witness:
  "fst (SerialPort_initialize ex_env_rejected (spp ex_server) ex_world) = Inr False \<and>
   fst (SerialPort_initialize ex_env (spp ex_server) ex_world) = Inr True"
  using SerialPort_initialize_result [of ex_env_rejected "spp ex_server" ex_world]
    SerialPort_initialize_result [of ex_env "spp ex_server" ex_world]
  by (simp add: ex_env_rejected_def ex_env_def)

subsection \<open>Claim C9: no listener is leaked by the teardown\<close>

text \<open>
  Claim C9. A listener is set up on \<open>port\<close> and a client accepted; the port table is the
  same when \<open>kill_connection\<close> runs. Then \<open>kill_connection\<close> returns normally, the port
  is free afterwards, and \<open>initialize\<close> of a fresh \<open>TCPServer\<close> on the same port
  succeeds.
\<close>

theorem listener_not_leaked:
  assumes "TCPServer_initialize env (TCPServer_init port) w = (Inr True, t1, w1)"
    and "accept_connection env t1 w1 = Some (Inr info, t2, w2)"
    and "bound w3 = bound w2"
    and "kill_connection t2 w3 = (r, t3, w4)"
  shows "r = Inr () \<and> port \<notin> bound w4 \<and>
         fst (TCPServer_initialize env (TCPServer_init port) w4) = Inr True"
proof -
  from assms(1) have f: "fst (TCPServer_initialize env (TCPServer_init port) w) = Inr True"
    by simp
  from TCPServer_initialize_True(1) [OF f] assms(1)
  have t1: "t1 = (TCPServer_init port)\<lparr>server_socket := Some (Listening port)\<rparr>" by simp
  from f have ok: "socket_error env AtSocket = None" "socket_error env AtSetsockopt = None"
    "socket_error env AtResolve = None" "socket_error env AtBind = None"
    "socket_error env AtListen = None" "0 \<le> port" "port \<le> 65535"
    by (auto simp: TCPServer_initialize_def TCPServer_init_def Let_def
        split: option.splits if_splits)
  from assms(2) have t2: "t2 = t1\<lparr>client_socket := Some Connected\<rparr>"
    by (auto simp: accept_connection_def t1 split: accept_result.splits)
  from assms(4) have r: "r = Inr ()" and w4: "bound w4 = bound w3 - {port}"
    by (auto simp: kill_connection_def sock_close_def t2 t1 log_def fd_close_def Let_def)
  from w4 have free: "port \<notin> bound w4" by simp
  with ok have "fst (TCPServer_initialize env (TCPServer_init port) w4) = Inr True"
    by (simp add: TCPServer_initialize_def TCPServer_init_def fd_open_def Let_def)
  with r free show ?thesis by simp
qed

theorem listener_not_leaked_witness:
  "TCPServer_initialize ex_env (TCPServer_init 8043) ex_world =
     (Inr True, (TCPServer_init 8043)\<lparr>server_socket := Some (Listening 8043)\<rparr>,
      ex_world\<lparr>bound := {8043}, open_fds := {#ListenerFd#}\<rparr>) \<and>
   accept_connection ex_env ((TCPServer_init 8043)\<lparr>server_socket := Some (Listening 8043)\<rparr>)
       (ex_world\<lparr>bound := {8043}, open_fds := {#ListenerFd#}\<rparr>) =
     Some (Inr ''127.0.0.1:50000'', session_server 8043,
           ex_world\<lparr>bound := {8043}, open_fds := {#ClientFd, ListenerFd#}\<rparr>) \<and>
   kill_connection (session_server 8043)
       (ex_world\<lparr>bound := {8043}, open_fds := {#ClientFd, ListenerFd#}\<rparr>) =
     (Inr (), (session_server 8043)\<lparr>client_socket := Some Closed, server_socket := Some Closed\<rparr>,
      ex_world\<lparr>trace := [ClientClose, ListenerClose]\<rparr>) \<and>
   8043 \<notin> bound (ex_world\<lparr>trace := [ClientClose, ListenerClose]\<rparr>) \<and>
   fst (TCPServer_initialize ex_env (TCPServer_init 8043)
          (ex_world\<lparr>trace := [ClientClose, ListenerClose]\<rparr>)) = Inr True"
proof -
  let ?t1 = "(TCPServer_init 8043)\<lparr>server_socket := Some (Listening 8043)\<rparr>"
  let ?w1 = "ex_world\<lparr>bound := {8043}, open_fds := {#ListenerFd#}\<rparr>"
  let ?w2 = "ex_world\<lparr>bound := {8043}, open_fds := {#ClientFd, ListenerFd#}\<rparr>"
  have h1: "TCPServer_initialize ex_env (TCPServer_init 8043) ex_world = (Inr True, ?t1, ?w1)"
    by (simp add: TCPServer_initialize_def TCPServer_init_def ex_world_def ex_env_def fd_open_def
        Let_def)
  have h2: "accept_connection ex_env ?t1 ?w1 = Some (Inr ''127.0.0.1:50000'', session_server 8043, ?w2)"
    by (simp add: accept_connection_def session_server_def ex_env_def fd_open_def ex_world_def)
  have h4: "kill_connection (session_server 8043) ?w2 =
     (Inr (), (session_server 8043)\<lparr>client_socket := Some Closed, server_socket := Some Closed\<rparr>,
      ex_world\<lparr>trace := [ClientClose, ListenerClose]\<rparr>)"
    by (simp add: kill_connection_def session_server_def sock_close_def log_def ex_world_def
        fd_close_def Let_def)
  show ?thesis
    using h1 h2 h4 listener_not_leaked [OF h1 h2 refl h4] by simp
qed

subsection \<open>Claim C10: kill_connection before a client is accepted\<close>

text \<open>
  Claim C10. With \<open>client_socket\<close> still \<open>None\<close>, \<open>kill_connection\<close> raises
  \<open>AttributeError\<close> and changes nothing: the listening socket is not closed and its
  port stays bound. Once both sockets exist, \<open>kill_connection\<close> returns normally.
\<close>

theorem kill_connection_before_accept:
  "(client_socket t = None \<longrightarrow> kill_connection t w = (Inl AttributeError, t, w)) \<and>
   (\<forall>c s. client_socket t = Some c \<and> server_socket t = Some s \<longrightarrow>
            fst (kill_connection t w) = Inr ())"
  by (auto simp: kill_connection_def sock_close_def Let_def split: prod.splits)

theorem kill_connection_before_accept_witness:
  "client_socket ((TCPServer_init 8043)\<lparr>server_socket := Some (Listening 8043)\<rparr>) = None \<and>
   kill_connection ((TCPServer_init 8043)\<lparr>server_socket := Some (Listening 8043)\<rparr>)
       (ex_world\<lparr>bound := {8043}\<rparr>) =
     (Inl AttributeError, (TCPServer_init 8043)\<lparr>server_socket := Some (Listening 8043)\<rparr>,
      ex_world\<lparr>bound := {8043}\<rparr>) \<and>
   client_socket (session_server 8043) = Some Connected \<and>
   server_socket (session_server 8043) = Some (Listening 8043) \<and>
   fst (kill_connection (session_server 8043) (ex_world\<lparr>bound := {8043}\<rparr>)) = Inr ()"
proof -
  have n: "client_socket ((TCPServer_init 8043)\<lparr>server_socket := Some (Listening 8043)\<rparr>) = None"
    by (simp add: TCPServer_init_def)
  have s: "client_socket (session_server 8043) = Some Connected \<and>
           server_socket (session_server 8043) = Some (Listening 8043)"
    by (simp add: session_server_def)
  show ?thesis
    using n s
      kill_connection_before_accept [of "(TCPServer_init 8043)\<lparr>server_socket := Some (Listening 8043)\<rparr>"
        "ex_world\<lparr>bound := {8043}\<rparr>"]
      kill_connection_before_accept [of "session_server 8043" "ex_world\<lparr>bound := {8043}\<rparr>"]
    by simp
qed

end
